theory Spec2Isabelle
  imports Main
begin

section \<open>The phone number field of django-formset\<close>

text \<open>
  A shallow embedding of \<^verbatim>\<open>client/django-formset/PhoneNumber.ts\<close>: the class
  \<^verbatim>\<open>PhoneNumberField\<close>, its event handlers and its validity check.  The widget keeps a
  content-editable display beside a hidden host input, re-runs an as-you-type formatter
  on every edit, and drives a country picker from the keyboard and the mouse.

  The formatter (\<^verbatim>\<open>AsYouType\<close> of libphonenumber-js), the positioning library
  (\<^verbatim>\<open>autoUpdate\<close> of floating-ui) and the browser's DOM are not part of the
  repository.  The formatter is a parameter of every definition; of the DOM the model
  keeps exactly what the handlers read and write.
\<close>

subsection \<open>The formatter interface\<close>

text \<open>
  \<^verbatim>\<open>getNumber()\<close> yields an object or \<^verbatim>\<open>undefined\<close>; the widget reads its
  \<^verbatim>\<open>nationalNumber\<close> and calls \<^verbatim>\<open>getType()\<close>, whose result is a string such as
  \<^verbatim>\<open>MOBILE\<close>, or \<^verbatim>\<open>undefined\<close>.
\<close>

record phone_number =
  nationalNumber :: string
  getType :: "string option"

text \<open>
  The methods of \<^verbatim>\<open>AsYouType\<close> that the widget calls, over an arbitrary type \<open>'f\<close>
  of formatter states.  \<open>create\<close> is the constructor, given the default country.
\<close>

record 'f formatter =
  create :: "string option \<Rightarrow> 'f"
  reset :: "'f \<Rightarrow> 'f"
  input :: "string \<Rightarrow> 'f \<Rightarrow> string \<times> 'f"
  getNumberValue :: "'f \<Rightarrow> string option"
  getNumber :: "'f \<Rightarrow> phone_number option"
  getCountry :: "'f \<Rightarrow> string option"
  isValid :: "'f \<Rightarrow> bool"

subsection \<open>The state of the widget\<close>

text \<open>
  The window's selection is \<open>None\<close> when \<^verbatim>\<open>rangeCount\<close> is zero, and otherwise the
  node that holds the start of its first range together with \<^verbatim>\<open>startOffset\<close>.
\<close>

datatype node = EditField | Elsewhere

datatype host_event = FocusEvent | BlurEvent | InputEvent

text \<open>The two callbacks the widget defers with a zero delay.\<close>

datatype timer = CaretToEnd | BlurCheck

datatype js_error = TypeError | RangeError | StylesError

text \<open>
  A handler either returns or throws.  Mutations made before a throw stay, so both
  cases carry the state.
\<close>

datatype 'a outcome = Returned 'a | Thrown js_error 'a

fun state_of :: "'a outcome \<Rightarrow> 'a" where
  "state_of (Returned s) = s"
| "state_of (Thrown e s) = s"

text \<open>
  The read-only fields.  An entry of \<open>codeCountryMap\<close> is the triple
  (country name, calling code, country code), in the order of the source; the list is
  in display order, one picker row per entry.
\<close>

record config =
  defaultCountryCode :: "string option"
  mobileOnly :: bool
  codeCountryMap :: "(string \<times> string \<times> string) list"

text \<open>
  The mutable state: the host input (\<open>inputValue\<close>, \<open>customValidity\<close>, the events
  dispatched on it), the edit field (\<open>innerText\<close>, whether it holds the focus, its
  \<^verbatim>\<open>aria-busy\<close>), the text box (class \<^verbatim>\<open>focus\<close>, \<^verbatim>\<open>aria-expanded\<close>), the flag shown
  in the opener, the picker rows that carry class \<^verbatim>\<open>selected\<close>, the window's
  selection, the private fields of the class, and the bookkeeping of what lies outside:
  the number of \<^verbatim>\<open>autoUpdate\<close> subscriptions acquired so far (subscription \<open>k\<close> is
  the one acquired by the \<open>k\<close>-th call, counted from zero), the subscriptions whose
  cleanup function has been called, in call order, and the pending deferred callbacks.
\<close>

record 'f field =
  inputValue :: string
  customValidity :: string
  dispatched :: "host_event list"
  innerText :: string
  focused :: bool
  ariaBusy :: bool
  focusClass :: bool
  ariaExpanded :: bool
  openerFlag :: "string option"
  selected :: "nat set"
  selection :: "(node \<times> nat) option"
  hasFocus :: bool
  isOpen :: bool
  isPristine :: bool
  cleanup :: "nat option"
  asYouType :: 'f
  acquired :: nat
  released :: "nat list"
  timers :: "timer list"

subsection \<open>Strings and DOM primitives\<close>

text \<open>
  Phone numbers and their formatted forms are ASCII text, for which the length of a
  JavaScript string is the length of the list of its characters.

  JavaScript's truthiness of a string that may be \<^verbatim>\<open>null\<close> or \<^verbatim>\<open>undefined\<close>:
\<close>

definition truthy :: "string option \<Rightarrow> bool" where
  "truthy v = (case v of None \<Rightarrow> False | Some s \<Rightarrow> s \<noteq> [])"

definition startsWith :: "string \<Rightarrow> string \<Rightarrow> bool" where
  "startsWith s p = (take (length p) s = p)"

text \<open>Country codes are ASCII letters; other characters are left as they are.\<close>

definition toUpperCase :: "string \<Rightarrow> string" where
  "toUpperCase s =
     map (\<lambda>c. case map_of (zip ''abcdefghijklmnopqrstuvwxyz'' ''ABCDEFGHIJKLMNOPQRSTUVWXYZ'') c of
                 None \<Rightarrow> c | Some u \<Rightarrow> u) s"

definition toLowerCase :: "string \<Rightarrow> string" where
  "toLowerCase s =
     map (\<lambda>c. case map_of (zip ''ABCDEFGHIJKLMNOPQRSTUVWXYZ'' ''abcdefghijklmnopqrstuvwxyz'') c of
                 None \<Rightarrow> c | Some l \<Rightarrow> l) s"

text \<open>
  Assigning \<^verbatim>\<open>innerText\<close> replaces the children of the edit field by one text node,
  or by none when the text is empty.  A range that started inside the field is moved
  by the DOM to offset zero of the field.
\<close>

definition setInnerText :: "string \<Rightarrow> 'f field \<Rightarrow> 'f field" where
  "setInnerText t st =
     st\<lparr>innerText := t,
        selection := (case selection st of
                        None \<Rightarrow> None
                      | Some (EditField, k) \<Rightarrow> Some (EditField, 0)
                      | Some (Elsewhere, k) \<Rightarrow> Some (Elsewhere, k))\<rparr>"

definition setCaretToEnd :: "'f field \<Rightarrow> 'f field" where
  "setCaretToEnd st =
     (if innerText st = [] then st
      else st\<lparr>selection := Some (EditField, length (innerText st))\<rparr>)"

definition decorateInputField :: "string option \<Rightarrow> 'f field \<Rightarrow> 'f field" where
  "decorateInputField countryCode st =
     st\<lparr>openerFlag := (if truthy countryCode then map_option toLowerCase countryCode else None)\<rparr>"

subsection \<open>Focus\<close>

definition handleFocus :: "bool \<Rightarrow> 'f field \<Rightarrow> 'f field" where
  "handleFocus targetIsEditField st =
     (if targetIsEditField
      then st\<lparr>ariaBusy := True, focusClass := True,
              dispatched := dispatched st @ [FocusEvent], hasFocus := True\<rparr>
      else st)"

text \<open>
  \<^verbatim>\<open>editField.focus()\<close>: only if the field did not hold the focus, the browser moves
  the window's selection to the start of the field and the focus event fires,
  synchronously.
\<close>

definition focusEditField :: "'f field \<Rightarrow> 'f field" where
  "focusEditField st =
     (if focused st then st
      else handleFocus True (st\<lparr>focused := True, selection := Some (EditField, 0)\<rparr>))"

definition handleBlur :: "'f field \<Rightarrow> 'f field" where
  "handleBlur st = st\<lparr>timers := timers st @ [BlurCheck]\<rparr>"

fun runTimer :: "timer \<Rightarrow> 'f field \<Rightarrow> 'f field" where
  "runTimer CaretToEnd st = setCaretToEnd st"
| "runTimer BlurCheck st =
     (if hasFocus st
      then st\<lparr>ariaBusy := False, focusClass := False, hasFocus := False,
              dispatched := dispatched st @ [BlurEvent]\<rparr>
      else st)"

text \<open>The end of the current turn: every pending callback runs, oldest first.\<close>

definition runTimers :: "'f field \<Rightarrow> 'f field" where
  "runTimers st = fold runTimer (timers st) (st\<lparr>timers := []\<rparr>)"

subsection \<open>The input editing engine\<close>

text \<open>
  \<^verbatim>\<open>updateInputField\<close>, in the three parts of its body.  First the transition out of
  the pristine state: the text that will be fed to the formatter, and the state.
\<close>

definition seedInternational ::
  "'f formatter \<Rightarrow> config \<Rightarrow> string \<Rightarrow> 'f field \<Rightarrow> string \<times> 'f field" where
  "seedInternational F cfg phoneNumber st =
     (if \<not> truthy (defaultCountryCode cfg) \<and> isPristine st
      then if \<not> startsWith phoneNumber ''+''
           then (if startsWith phoneNumber ''0'' then [] else phoneNumber,
                 setCaretToEnd
                   (setInnerText (fst (input F ''+'' (asYouType st)))
                      (st\<lparr>isPristine := False, asYouType := snd (input F ''+'' (asYouType st))\<rparr>)))
           else (phoneNumber, st\<lparr>isPristine := False\<rparr>)
      else (phoneNumber, st))"

text \<open>Then the caret, read from the window's selection before the display is rewritten.\<close>

definition caretPosition :: "'f field \<Rightarrow> nat" where
  "caretPosition st =
     (let caret = (case selection st of None \<Rightarrow> 0 | Some (n, k) \<Rightarrow> k)
      in if length (innerText st) = caret then caret + 1 else caret)"

text \<open>
  Last the display, the caret, the host value, the flag and the notification.  The text
  node read after the display has been rewritten is \<^verbatim>\<open>undefined\<close> when the formatter
  returned the empty string; reading its \<^verbatim>\<open>length\<close> then throws, and the statements
  after it do not run.
\<close>

definition formatInto :: "'f formatter \<Rightarrow> string \<Rightarrow> 'f field \<Rightarrow> 'f field outcome" where
  "formatInto F phoneNumber st =
     (let out = fst (input F phoneNumber (asYouType st));
          f = snd (input F phoneNumber (asYouType st));
          st1 = setInnerText out (st\<lparr>asYouType := f\<rparr>)
      in if out = [] then Thrown TypeError st1
         else let st2 = st1\<lparr>selection := Some (EditField, min (caretPosition st) (length out)),
                            inputValue := (case getNumberValue F f of None \<Rightarrow> [] | Some v \<Rightarrow> v)\<rparr>;
                  st3 = decorateInputField (getCountry F f) st2
              in Returned (st3\<lparr>dispatched := dispatched st3 @ [InputEvent]\<rparr>))"

definition updateInputField ::
  "'f formatter \<Rightarrow> config \<Rightarrow> string \<Rightarrow> 'f field \<Rightarrow> 'f field outcome" where
  "updateInputField F cfg phoneNumber st =
     (let seeded = seedInternational F cfg phoneNumber (st\<lparr>asYouType := reset F (asYouType st)\<rparr>)
      in formatInto F (fst seeded) (snd seeded))"

text \<open>\<^verbatim>\<open>handleInput\<close>, for an input event whose target is, or is not, the edit field.\<close>

definition handleInput :: "'f formatter \<Rightarrow> config \<Rightarrow> bool \<Rightarrow> 'f field \<Rightarrow> 'f field outcome" where
  "handleInput F cfg targetIsEditField st =
     (if targetIsEditField
      then if innerText st = [] then Returned (st\<lparr>isPristine := True\<rparr>)
           else updateInputField F cfg (innerText st) st
      else Returned st)"

text \<open>
  An edit by the user: the browser has already put the raw text into the edit field and
  moved the caret when the input event reaches \<^verbatim>\<open>handleInput\<close>.
\<close>

definition applyEdit ::
  "'f formatter \<Rightarrow> config \<Rightarrow> string \<Rightarrow> nat \<Rightarrow> 'f field \<Rightarrow> 'f field outcome" where
  "applyEdit F cfg rawText caret st =
     handleInput F cfg True (st\<lparr>innerText := rawText, selection := Some (EditField, caret)\<rparr>)"

subsection \<open>The country picker\<close>

text \<open>
  \<^verbatim>\<open>querySelector('li[data-country].selected')\<close>: the first row, in document order,
  that carries the class.  Rows exist for the entries of the catalogue only.
\<close>

definition selectedRow :: "config \<Rightarrow> 'f field \<Rightarrow> nat option" where
  "selectedRow cfg st =
     (case filter (\<lambda>i. i \<in> selected st) [0..<length (codeCountryMap cfg)] of
        [] \<Rightarrow> None
      | i # rest \<Rightarrow> Some i)"

text \<open>The first row whose \<^verbatim>\<open>data-country\<close> attribute is the given country.\<close>

fun findRow :: "string \<Rightarrow> (string \<times> string \<times> string) list \<Rightarrow> nat option" where
  "findRow country [] = None"
| "findRow country ((countryName, callingCode, countryCode) # rows) =
     (if countryCode = country then Some 0 else map_option Suc (findRow country rows))"

definition deselectAll :: "'f field \<Rightarrow> 'f field" where
  "deselectAll st = st\<lparr>selected := {}\<rparr>"

definition selectElement :: "nat \<Rightarrow> 'f field \<Rightarrow> 'f field" where
  "selectElement i st = (deselectAll st)\<lparr>selected := insert i (selected (deselectAll st))\<rparr>"

text \<open>
  \<^verbatim>\<open>openInternationalSelector\<close>.  The call of \<^verbatim>\<open>autoUpdate\<close> acquires a new
  subscription, and its cleanup function overwrites the one kept before.
\<close>

definition openInternationalSelector :: "'f formatter \<Rightarrow> config \<Rightarrow> 'f field \<Rightarrow> 'f field" where
  "openInternationalSelector F cfg st0 =
     (let st1 = st0\<lparr>cleanup := Some (acquired st0), acquired := acquired st0 + 1\<rparr>;
          st2 = deselectAll (st1\<lparr>ariaExpanded := True, isOpen := True, isPristine := True\<rparr>);
          country = getCountry F (asYouType st2)
      in case country of
           None \<Rightarrow> st2
         | Some c \<Rightarrow>
             if c = [] then st2
             else (case findRow c (codeCountryMap cfg) of
                     None \<Rightarrow> st2
                   | Some i \<Rightarrow> st2\<lparr>selected := insert i (selected st2)\<rparr>))"

text \<open>\<^verbatim>\<open>closeInternationalSelector\<close>; \<^verbatim>\<open>this.cleanup?.()\<close> calls whatever is kept.\<close>

definition closeInternationalSelector :: "'f field \<Rightarrow> 'f field" where
  "closeInternationalSelector st0 =
     (let st1 = st0\<lparr>isOpen := False, ariaExpanded := False\<rparr>
      in case cleanup st1 of
           None \<Rightarrow> st1
         | Some k \<Rightarrow> st1\<lparr>released := released st1 @ [k]\<rparr>)"

definition setInternationalCode ::
  "'f formatter \<Rightarrow> string \<Rightarrow> string \<Rightarrow> 'f field \<Rightarrow> 'f field" where
  "setInternationalCode F countryCode callingCode st0 =
     (let st1 = decorateInputField (Some countryCode) st0;
          nationalNumber' = (case getNumber F (asYouType st1) of
                               None \<Rightarrow> [] | Some n \<Rightarrow> nationalNumber n);
          st2 = decorateInputField (Some countryCode) st1;
          st3 = setInnerText (''+'' @ callingCode @ nationalNumber') st2;
          st4 = focusEditField st3
      in st4\<lparr>timers := timers st4 @ [CaretToEnd]\<rparr>)"

subsection \<open>Clicks\<close>

text \<open>
  An element on the path from the target of a click to the root: which of the two
  elements the handler compares with it is, and its two data attributes
  (\<open>None\<close> for an attribute the element does not have).
\<close>

datatype ident = InternationalSelector | InternationalOpener | OtherElement

record element =
  ident :: ident
  dataCountry :: "string option"
  dataCallingCode :: "string option"

text \<open>
  The loop of \<^verbatim>\<open>handleClick\<close> over the target and its ancestors, the target first.
  Leaving the loop, by \<^verbatim>\<open>break\<close> or at the root, closes the picker; reaching the
  opener returns at once.
\<close>

fun clickLoop ::
  "'f formatter \<Rightarrow> config \<Rightarrow> string option \<Rightarrow> string option \<Rightarrow> element list \<Rightarrow>
   'f field \<Rightarrow> 'f field" where
  "clickLoop F cfg countryCode callingCode [] st = closeInternationalSelector st"
| "clickLoop F cfg countryCode callingCode (e # ancestors) st =
     (let (countryCode', callingCode') =
            (if dataCountry e \<noteq> None then (dataCountry e, dataCallingCode e)
             else (countryCode, callingCode))
      in if ident e = InternationalSelector \<and> truthy countryCode' \<and> truthy callingCode'
         then closeInternationalSelector
                (setInternationalCode F (case countryCode' of None \<Rightarrow> [] | Some c \<Rightarrow> c)
                   (case callingCode' of None \<Rightarrow> [] | Some c \<Rightarrow> c) st)
         else if ident e = InternationalOpener then openInternationalSelector F cfg st
         else clickLoop F cfg countryCode' callingCode' ancestors st)"

definition handleClick :: "'f formatter \<Rightarrow> config \<Rightarrow> element list \<Rightarrow> 'f field \<Rightarrow> 'f field" where
  "handleClick F cfg path st = clickLoop F cfg None None path st"

subsection \<open>Keys\<close>

text \<open>The data attributes of picker row \<open>i\<close>, as \<^verbatim>\<open>createTextBox\<close> writes them.\<close>

definition rowCountry :: "config \<Rightarrow> nat \<Rightarrow> string" where
  "rowCountry cfg i = (case codeCountryMap cfg ! i of (countryName, callingCode, countryCode) \<Rightarrow> countryCode)"

definition rowCallingCode :: "config \<Rightarrow> nat \<Rightarrow> string" where
  "rowCallingCode cfg i = (case codeCountryMap cfg ! i of (countryName, callingCode, countryCode) \<Rightarrow> callingCode)"

text \<open>
  \<^verbatim>\<open>handleKeypress\<close>, by the value of \<^verbatim>\<open>event.key\<close>.  The last case of the
  \<^verbatim>\<open>switch\<close> lists the eleven one-character keys \<open>+\<close> and \<open>0\<close> to \<open>9\<close>.
  Scrolling a row into view and \<^verbatim>\<open>preventDefault\<close> leave the state of the widget as it
  is.
\<close>

definition handleKeypress ::
  "'f formatter \<Rightarrow> config \<Rightarrow> string \<Rightarrow> 'f field \<Rightarrow> 'f field outcome" where
  "handleKeypress F cfg key st =
     (if \<not> isOpen st then Returned st
      else if key = ''Enter'' then
        (case selectedRow cfg st of
           None \<Rightarrow> Returned st
         | Some i \<Rightarrow>
             Returned (setInternationalCode F (rowCountry cfg i) (rowCallingCode cfg i)
                         (closeInternationalSelector st)))
      else if key = ''Escape'' then Returned (closeInternationalSelector st)
      else if key = ''ArrowUp'' then
        (let prev = (case selectedRow cfg st of
                       None \<Rightarrow> None
                     | Some i \<Rightarrow> if 0 < i then Some (i - 1) else None);
             prev' = (case prev of
                        None \<Rightarrow> if codeCountryMap cfg = [] then None
                                 else Some (length (codeCountryMap cfg) - 1)
                      | Some j \<Rightarrow> Some j)
         in case prev' of None \<Rightarrow> Returned st | Some j \<Rightarrow> Returned (selectElement j st))
      else if key = ''ArrowDown'' then
        (let next = (case selectedRow cfg st of
                       None \<Rightarrow> None
                     | Some i \<Rightarrow> if i + 1 < length (codeCountryMap cfg) then Some (i + 1) else None);
             next' = (case next of
                        None \<Rightarrow> if codeCountryMap cfg = [] then None else Some 0
                      | Some j \<Rightarrow> Some j)
         in case next' of None \<Rightarrow> Returned st | Some j \<Rightarrow> Returned (selectElement j st))
      else if key \<in> set (map (\<lambda>c. [c]) ''+0123456789'') then
        updateInputField F cfg key (focusEditField (closeInternationalSelector st))
      else Returned st)"

subsection \<open>Validity\<close>

text \<open>
  \<^verbatim>\<open>checkValidity\<close> has no \<^verbatim>\<open>throw\<close>, and its one dereference of a value that may be
  \<^verbatim>\<open>undefined\<close> is an optional chain: it returns on every path, with the result and
  the state, in which the message of the host input may have changed.
\<close>

definition checkValidity :: "'f formatter \<Rightarrow> config \<Rightarrow> 'f field \<Rightarrow> bool \<times> 'f field" where
  "checkValidity F cfg st =
     (if isValid F (asYouType st)
      then if mobileOnly cfg \<and>
              (case getNumber F (asYouType st) of None \<Rightarrow> None | Some n \<Rightarrow> getType n) \<noteq> Some ''MOBILE''
           then (False, st\<lparr>customValidity := ''Invalid mobile number''\<rparr>)
           else (True, st)
      else (False, st\<lparr>customValidity := ''Invalid phone number''\<rparr>))"

subsection \<open>Construction\<close>

text \<open>
  What the constructor reads: the attributes and the value of the host input, the
  \<^verbatim>\<open>lang\<close> of the document element (empty when the attribute is absent) and whether
  \<^verbatim>\<open>Intl.Collator\<close> takes it for a well-formed language tag, the catalogue of countries
  (already named, in the order of the collator), whether the styles are installed, whether
  the style sheet of the widget has a rule for the base selector, and the offset of the
  window's selection, which lies outside the new edit field.

  The \<^verbatim>\<open>lang\<close> of the document element is a string, never \<^verbatim>\<open>null\<close>, so the fallback
  to \<^verbatim>\<open>en\<close> is never taken: an empty or ill-formed tag makes \<^verbatim>\<open>new Intl.Collator\<close>
  throw before anything is built.
\<close>

record host =
  attrDefaultCountryCode :: "string option"
  attrMobileOnly :: bool
  hostValue :: string
  documentLang :: string
  langIsWellFormed :: bool
  countries :: "(string \<times> string \<times> string) list"
  stylesAreInstalled :: bool
  sheetHasBaseRule :: bool
  pageSelection :: "nat option"

definition construct :: "'f formatter \<Rightarrow> host \<Rightarrow> js_error + config \<times> 'f field" where
  "construct F h =
     (let countryCode = attrDefaultCountryCode h;
          cfg = \<lparr>defaultCountryCode = (if truthy countryCode then map_option toUpperCase countryCode else None),
                 mobileOnly = attrMobileOnly h,
                 codeCountryMap = countries h\<rparr>;
          st0 = \<lparr>inputValue = hostValue h, customValidity = [], dispatched = [],
                 innerText = [], focused = False, ariaBusy = False, focusClass = False,
                 ariaExpanded = False, openerFlag = None, selected = {},
                 selection = map_option (Pair Elsewhere) (pageSelection h),
                 hasFocus = False, isOpen = False, isPristine = True, cleanup = None,
                 asYouType = create F (defaultCountryCode cfg),
                 acquired = 0, released = [], timers = []\<rparr>
      in if documentLang h = [] \<or> \<not> langIsWellFormed h then Inl RangeError
         else if \<not> stylesAreInstalled h \<and> \<not> sheetHasBaseRule h then Inl StylesError
         else if hostValue h \<noteq> []
         then let (out, f) = input F (hostValue h) (asYouType st0);
                  st1 = setInnerText out (st0\<lparr>asYouType := f\<rparr>);
                  st2 = st1\<lparr>inputValue := (case getNumberValue F f of
                                               None \<Rightarrow> inputValue st1 | Some v \<Rightarrow> v)\<rparr>
              in Inr (cfg, decorateInputField (getCountry F f) st2)
         else Inr (cfg, st0))"

subsection \<open>Events\<close>

text \<open>
  What reaches the widget: an edit of the display (raw text and caret), a click with
  the path from its target to the root, a key, the edit field gaining or losing the focus,
  and the end of a turn.  An exception thrown by a handler ends that handler only.
\<close>

datatype event =
    Edit string nat
  | Click "element list"
  | Key string
  | Focus
  | Blur
  | Turn

fun dispatch :: "'f formatter \<Rightarrow> config \<Rightarrow> event \<Rightarrow> 'f field \<Rightarrow> 'f field outcome" where
  "dispatch F cfg (Edit rawText caret) st = applyEdit F cfg rawText caret st"
| "dispatch F cfg (Click path) st = Returned (handleClick F cfg path st)"
| "dispatch F cfg (Key key) st = handleKeypress F cfg key st"
| "dispatch F cfg Focus st = Returned (focusEditField st)"
| "dispatch F cfg Blur st = Returned (handleBlur (st\<lparr>focused := False\<rparr>))"
| "dispatch F cfg Turn st = Returned (runTimers st)"

fun run :: "'f formatter \<Rightarrow> config \<Rightarrow> event list \<Rightarrow> 'f field \<Rightarrow> 'f field" where
  "run F cfg [] st = st"
| "run F cfg (e # es) st = run F cfg es (state_of (dispatch F cfg e st))"

subsection \<open>A small formatter, for evaluation\<close>

text \<open>
  The theorems below hold for every formatter.  To evaluate the widget on concrete
  inputs, here is one small instance of the interface.  Its state is the default country
  and the characters kept since the last reset: every digit, and a plus sign that comes
  first.  International numbers have a two-digit calling code, set off by a space;
  national numbers show their first three digits in parentheses.  A number is complete
  with nine national digits, and mobile when these start with 7.
\<close>

fun keep :: "string \<Rightarrow> string \<Rightarrow> string" where
  "keep acc [] = acc"
| "keep acc (c # cs) =
     keep (if c \<in> set ''0123456789'' \<or> (c = CHR ''+'' \<and> acc = []) then acc @ [c] else acc) cs"

definition display :: "string \<Rightarrow> string" where
  "display acc =
     (if startsWith acc ''+''
      then if length acc \<le> 3 then acc else take 3 acc @ '' '' @ drop 3 acc
      else if length acc < 3 then acc
      else ''('' @ take 3 acc @ '')'' @ (if length acc = 3 then [] else '' '' @ drop 3 acc))"

text \<open>The country, the calling code and the national number, as far as they are known.\<close>

definition parse :: "string option \<times> string \<Rightarrow> (string \<times> string \<times> string) option" where
  "parse s =
     (case s of (dflt, acc) \<Rightarrow>
        if startsWith acc ''+''
        then (case map_of [(''41'', ''CH''), (''49'', ''DE'')] (take 2 (drop 1 acc)) of
                None \<Rightarrow> None
              | Some country \<Rightarrow> Some (country, take 2 (drop 1 acc), drop 3 acc))
        else (case dflt of
                None \<Rightarrow> None
              | Some country \<Rightarrow>
                  (case map_of [(''CH'', ''41''), (''DE'', ''49'')] country of
                     None \<Rightarrow> None
                   | Some code \<Rightarrow> Some (country, code, acc))))"

definition sampleFormatter :: "(string option \<times> string) formatter" where
  "sampleFormatter =
     \<lparr>create = (\<lambda>dflt. (dflt, [])),
      reset = (\<lambda>s. (fst s, [])),
      input = (\<lambda>text s. (display (keep (snd s) text), (fst s, keep (snd s) text))),
      getNumberValue = (\<lambda>s. case parse s of
                               None \<Rightarrow> None
                             | Some (country, code, national) \<Rightarrow>
                                 if national = [] then None else Some (''+'' @ code @ national)),
      getNumber = (\<lambda>s. case parse s of
                          None \<Rightarrow> None
                        | Some (country, code, national) \<Rightarrow>
                            if national = [] then None
                            else Some \<lparr>nationalNumber = national,
                                       getType = Some (if startsWith national ''7''
                                                       then ''MOBILE'' else ''FIXED_LINE'')\<rparr>),
      getCountry = (\<lambda>s. map_option fst (parse s)),
      isValid = (\<lambda>s. case parse s of
                        None \<Rightarrow> False
                      | Some (country, code, national) \<Rightarrow> length national = 9)\<rparr>"

text \<open>
  A host input with the given default country and value, in an English document with a
  catalogue of two countries; the widget built on it.
\<close>

definition sampleHost :: "string option \<Rightarrow> string \<Rightarrow> host" where
  "sampleHost dflt v =
     \<lparr>attrDefaultCountryCode = dflt, attrMobileOnly = False, hostValue = v,
      documentLang = ''en'', langIsWellFormed = True,
      countries = [(''Germany'', ''49'', ''DE''), (''Switzerland'', ''41'', ''CH'')],
      stylesAreInstalled = True, sheetHasBaseRule = True, pageSelection = None\<rparr>"

definition sampleConfig :: "string option \<Rightarrow> config" where
  "sampleConfig dflt = fst (projr (construct sampleFormatter (sampleHost dflt [])))"

definition sampleField :: "string option \<Rightarrow> (string option \<times> string) field" where
  "sampleField dflt = snd (projr (construct sampleFormatter (sampleHost dflt [])))"

text \<open>The paths of a click on the opener, on picker row \<open>i\<close>, and outside the widget.\<close>

definition plain :: element where
  "plain = \<lparr>ident = OtherElement, dataCountry = None, dataCallingCode = None\<rparr>"

definition onOpener :: "element list" where
  "onOpener = [plain\<lparr>ident := InternationalOpener\<rparr>, plain, plain]"

definition onRow :: "config \<Rightarrow> nat \<Rightarrow> element list" where
  "onRow cfg i =
     [plain\<lparr>dataCountry := Some (rowCountry cfg i), dataCallingCode := Some (rowCallingCode cfg i)\<rparr>,
      plain, plain\<lparr>ident := InternationalSelector\<rparr>, plain]"

definition outside :: "element list" where
  "outside = [plain, plain]"

section \<open>Properties\<close>

subsection \<open>What each part of the model leaves alone\<close>

lemma setInnerText_fields [simp]:
  "innerText (setInnerText t st) = t"
  "asYouType (setInnerText t st) = asYouType st"
  "isPristine (setInnerText t st) = isPristine st"
  "isOpen (setInnerText t st) = isOpen st"
  "inputValue (setInnerText t st) = inputValue st"
  "cleanup (setInnerText t st) = cleanup st"
  "released (setInnerText t st) = released st"
  "acquired (setInnerText t st) = acquired st"
  "timers (setInnerText t st) = timers st"
  "focused (setInnerText t st) = focused st"
  "dispatched (setInnerText t st) = dispatched st"
  "selected (setInnerText t st) = selected st"
  by (simp_all add: setInnerText_def)

lemma setCaretToEnd_fields [simp]:
  "innerText (setCaretToEnd st) = innerText st"
  "asYouType (setCaretToEnd st) = asYouType st"
  "isPristine (setCaretToEnd st) = isPristine st"
  "isOpen (setCaretToEnd st) = isOpen st"
  "inputValue (setCaretToEnd st) = inputValue st"
  "cleanup (setCaretToEnd st) = cleanup st"
  "released (setCaretToEnd st) = released st"
  "acquired (setCaretToEnd st) = acquired st"
  "timers (setCaretToEnd st) = timers st"
  "focused (setCaretToEnd st) = focused st"
  "dispatched (setCaretToEnd st) = dispatched st"
  "selected (setCaretToEnd st) = selected st"
  by (simp_all add: setCaretToEnd_def)

lemma decorateInputField_fields [simp]:
  "innerText (decorateInputField c st) = innerText st"
  "asYouType (decorateInputField c st) = asYouType st"
  "isPristine (decorateInputField c st) = isPristine st"
  "isOpen (decorateInputField c st) = isOpen st"
  "inputValue (decorateInputField c st) = inputValue st"
  "cleanup (decorateInputField c st) = cleanup st"
  "released (decorateInputField c st) = released st"
  "acquired (decorateInputField c st) = acquired st"
  "timers (decorateInputField c st) = timers st"
  "focused (decorateInputField c st) = focused st"
  "dispatched (decorateInputField c st) = dispatched st"
  "selection (decorateInputField c st) = selection st"
  "selected (decorateInputField c st) = selected st"
  by (simp_all add: decorateInputField_def)

lemma seedInternational_frame [simp]:
  "isOpen (snd (seedInternational F cfg p st)) = isOpen st"
  "inputValue (snd (seedInternational F cfg p st)) = inputValue st"
  "cleanup (snd (seedInternational F cfg p st)) = cleanup st"
  "released (snd (seedInternational F cfg p st)) = released st"
  "acquired (snd (seedInternational F cfg p st)) = acquired st"
  "timers (snd (seedInternational F cfg p st)) = timers st"
  "dispatched (snd (seedInternational F cfg p st)) = dispatched st"
  "selected (snd (seedInternational F cfg p st)) = selected st"
  by (simp_all add: seedInternational_def)

lemma formatInto_frame [simp]:
  "isOpen (state_of (formatInto F p st)) = isOpen st"
  "isPristine (state_of (formatInto F p st)) = isPristine st"
  "cleanup (state_of (formatInto F p st)) = cleanup st"
  "released (state_of (formatInto F p st)) = released st"
  "acquired (state_of (formatInto F p st)) = acquired st"
  "timers (state_of (formatInto F p st)) = timers st"
  "selected (state_of (formatInto F p st)) = selected st"
  "asYouType (state_of (formatInto F p st)) = snd (input F p (asYouType st))"
  "innerText (state_of (formatInto F p st)) = fst (input F p (asYouType st))"
  by (simp_all add: formatInto_def Let_def)

lemma formatInto_returned:
  "fst (input F p (asYouType st)) \<noteq> [] \<Longrightarrow>
   formatInto F p st = Returned (state_of (formatInto F p st))"
  by (simp add: formatInto_def Let_def)

lemma formatInto_thrown:
  "fst (input F p (asYouType st)) = [] \<Longrightarrow>
   formatInto F p st = Thrown TypeError (state_of (formatInto F p st))"
  by (simp add: formatInto_def Let_def)

lemma formatInto_value:
  "fst (input F p (asYouType st)) \<noteq> [] \<Longrightarrow>
   inputValue (state_of (formatInto F p st)) =
     (case getNumberValue F (snd (input F p (asYouType st))) of None \<Rightarrow> [] | Some v \<Rightarrow> v)"
  by (simp add: formatInto_def Let_def)

lemma formatInto_selection:
  "fst (input F p (asYouType st)) \<noteq> [] \<Longrightarrow>
   selection (state_of (formatInto F p st)) =
     Some (EditField, min (caretPosition st) (length (fst (input F p (asYouType st)))))"
  by (simp add: formatInto_def Let_def)

lemma updateInputField_frame [simp]:
  "isOpen (state_of (updateInputField F cfg p st)) = isOpen st"
  "cleanup (state_of (updateInputField F cfg p st)) = cleanup st"
  "released (state_of (updateInputField F cfg p st)) = released st"
  "acquired (state_of (updateInputField F cfg p st)) = acquired st"
  "timers (state_of (updateInputField F cfg p st)) = timers st"
  "selected (state_of (updateInputField F cfg p st)) = selected st"
  by (simp_all add: updateInputField_def Let_def)

lemma closeInternationalSelector_fields [simp]:
  "isOpen (closeInternationalSelector st) = False"
  "innerText (closeInternationalSelector st) = innerText st"
  "asYouType (closeInternationalSelector st) = asYouType st"
  "isPristine (closeInternationalSelector st) = isPristine st"
  "inputValue (closeInternationalSelector st) = inputValue st"
  "cleanup (closeInternationalSelector st) = cleanup st"
  "acquired (closeInternationalSelector st) = acquired st"
  "timers (closeInternationalSelector st) = timers st"
  "dispatched (closeInternationalSelector st) = dispatched st"
  "selection (closeInternationalSelector st) = selection st"
  "selected (closeInternationalSelector st) = selected st"
  "focused (closeInternationalSelector st) = focused st"
  by (simp_all add: closeInternationalSelector_def Let_def split: option.split)

lemma closeInternationalSelector_released:
  "released (closeInternationalSelector st) =
     (case cleanup st of None \<Rightarrow> released st | Some k \<Rightarrow> released st @ [k])"
  by (simp add: closeInternationalSelector_def Let_def split: option.split)

lemma focusEditField_fields [simp]:
  "isOpen (focusEditField st) = isOpen st"
  "innerText (focusEditField st) = innerText st"
  "asYouType (focusEditField st) = asYouType st"
  "isPristine (focusEditField st) = isPristine st"
  "inputValue (focusEditField st) = inputValue st"
  "cleanup (focusEditField st) = cleanup st"
  "released (focusEditField st) = released st"
  "acquired (focusEditField st) = acquired st"
  "timers (focusEditField st) = timers st"
  "selected (focusEditField st) = selected st"
  "openerFlag (focusEditField st) = openerFlag st"
  by (simp_all add: focusEditField_def handleFocus_def)

lemma openInternationalSelector_fields [simp]:
  "isOpen (openInternationalSelector F cfg st)"
  "isPristine (openInternationalSelector F cfg st)"
  "cleanup (openInternationalSelector F cfg st) = Some (acquired st)"
  "acquired (openInternationalSelector F cfg st) = acquired st + 1"
  "released (openInternationalSelector F cfg st) = released st"
  "innerText (openInternationalSelector F cfg st) = innerText st"
  "asYouType (openInternationalSelector F cfg st) = asYouType st"
  "inputValue (openInternationalSelector F cfg st) = inputValue st"
  "timers (openInternationalSelector F cfg st) = timers st"
  by (simp_all add: openInternationalSelector_def Let_def deselectAll_def split: option.split)

lemma setInternationalCode_fields [simp]:
  "isOpen (setInternationalCode F cc cl st) = isOpen st"
  "cleanup (setInternationalCode F cc cl st) = cleanup st"
  "released (setInternationalCode F cc cl st) = released st"
  "acquired (setInternationalCode F cc cl st) = acquired st"
  "asYouType (setInternationalCode F cc cl st) = asYouType st"
  "inputValue (setInternationalCode F cc cl st) = inputValue st"
  "timers (setInternationalCode F cc cl st) = timers st @ [CaretToEnd]"
  "innerText (setInternationalCode F cc cl st) =
     ''+'' @ cl @ (case getNumber F (asYouType st) of None \<Rightarrow> [] | Some n \<Rightarrow> nationalNumber n)"
  by (simp_all add: setInternationalCode_def Let_def)

lemma selectElement_fields [simp]:
  "selected (selectElement j st) = {j}"
  "isOpen (selectElement j st) = isOpen st"
  by (simp_all add: selectElement_def deselectAll_def)

lemma runTimer_innerText [simp]: "innerText (runTimer t st) = innerText st"
  by (cases t) simp_all

lemma fold_runTimer_innerText [simp]: "innerText (fold runTimer ts st) = innerText st"
  by (induction ts arbitrary: st) simp_all

subsection \<open>The handlers on the paths the claims take\<close>

lemma seedInternational_seeded:
  assumes "\<not> truthy (defaultCountryCode cfg)" and "isPristine st" and "\<not> startsWith p ''+''"
  shows "fst (seedInternational F cfg p st) = (if startsWith p ''0'' then [] else p)"
    and "asYouType (snd (seedInternational F cfg p st)) = snd (input F ''+'' (asYouType st))"
    and "innerText (snd (seedInternational F cfg p st)) = fst (input F ''+'' (asYouType st))"
    and "\<not> isPristine (snd (seedInternational F cfg p st))"
  using assms by (simp_all add: seedInternational_def)

lemma seedInternational_unseeded:
  assumes "truthy (defaultCountryCode cfg) \<or> \<not> isPristine st"
  shows "seedInternational F cfg p st = (p, st)"
  using assms by (auto simp add: seedInternational_def)

lemma seedInternational_plus:
  assumes "startsWith p ''+''"
  shows "fst (seedInternational F cfg p st) = p"
    and "asYouType (snd (seedInternational F cfg p st)) = asYouType st"
    and "innerText (snd (seedInternational F cfg p st)) = innerText st"
    and "selection (snd (seedInternational F cfg p st)) = selection st"
  using assms by (simp_all add: seedInternational_def)

lemma seedInternational_pristine:
  "\<not> truthy (defaultCountryCode cfg) \<Longrightarrow> \<not> isPristine (snd (seedInternational F cfg p st))"
  by (simp add: seedInternational_def)

lemma seedInternational_kept:
  assumes "truthy (defaultCountryCode cfg) \<or> \<not> isPristine st \<or> startsWith p ''+''"
  shows "fst (seedInternational F cfg p st) = p"
    and "asYouType (snd (seedInternational F cfg p st)) = asYouType st"
    and "caretPosition (snd (seedInternational F cfg p st)) = caretPosition st"
  using assms by (auto simp add: seedInternational_def caretPosition_def)

lemma caretPosition_edit:
  "caretPosition (st\<lparr>innerText := t, selection := Some (EditField, c), asYouType := f\<rparr>) =
     (if c = length t then c + 1 else c)"
  by (auto simp add: caretPosition_def)

lemma applyEdit_nonempty:
  "rawText \<noteq> [] \<Longrightarrow>
   applyEdit F cfg rawText caret st =
     updateInputField F cfg rawText (st\<lparr>innerText := rawText, selection := Some (EditField, caret)\<rparr>)"
  by (simp add: applyEdit_def handleInput_def)

lemma updateInputField_asYouType:
  "asYouType (state_of (updateInputField F cfg p st)) =
     (if \<not> truthy (defaultCountryCode cfg) \<and> isPristine st \<and> \<not> startsWith p ''+''
      then snd (input F (if startsWith p ''0'' then [] else p)
                  (snd (input F ''+'' (reset F (asYouType st)))))
      else snd (input F p (reset F (asYouType st))))"
  by (simp add: updateInputField_def Let_def seedInternational_def)



lemma digit_key_not_named:
  assumes "key \<in> set (map (\<lambda>c. [c]) ''+0123456789'')"
  shows "key \<noteq> ''Enter''" and "key \<noteq> ''Escape''" and "key \<noteq> ''ArrowUp''" and "key \<noteq> ''ArrowDown''"
  using assms by auto



lemma handleKeypress_Escape:
  "isOpen st \<Longrightarrow> handleKeypress F cfg ''Escape'' st = Returned (closeInternationalSelector st)"
  by (simp add: handleKeypress_def)

lemma handleKeypress_Enter:
  assumes "isOpen st" and "selectedRow cfg st = Some i"
  shows "handleKeypress F cfg ''Enter'' st =
           Returned (setInternationalCode F (rowCountry cfg i) (rowCallingCode cfg i)
                       (closeInternationalSelector st))"
  using assms by (simp add: handleKeypress_def)

lemma handleClick_onRow:
  assumes "rowCountry cfg i \<noteq> []" and "rowCallingCode cfg i \<noteq> []"
  shows "handleClick F cfg (onRow cfg i) st =
           closeInternationalSelector
             (setInternationalCode F (rowCountry cfg i) (rowCallingCode cfg i) st)"
  using assms by (simp add: handleClick_def onRow_def plain_def truthy_def)

lemma runTimers_caret:
  assumes "timers st = ts @ [CaretToEnd]" and "innerText st \<noteq> []"
  shows "selection (runTimers st) = Some (EditField, length (innerText st))"
    and "innerText (runTimers st) = innerText st"
  using assms by (simp_all add: runTimers_def setCaretToEnd_def)

lemma clickLoop_closes:
  assumes "InternationalOpener \<notin> ident ` set path" and "cleanup st = Some k"
  shows "\<not> isOpen (clickLoop F cfg cc cl path st) \<and>
         released (clickLoop F cfg cc cl path st) = released st @ [k]"
  using assms
  by (induction path arbitrary: cc cl)
     (auto simp add: closeInternationalSelector_released Let_def case_prod_beta)

subsection \<open>The pristine transition\<close>

text \<open>
  Claim C1, as the code has it.  With no default country, for a pristine field and a
  non-empty raw text that does not start with a plus sign, the formatter is reset and fed
  a plus sign, and then the raw text, or nothing at all when the raw text starts with
  the digit 0: the whole text is discarded then, not only its first digit.  The display
  is what the formatter returns for that; when it is not empty the edit returns and the
  host value is the formatter's number, or empty.  The pristine flag is cleared, so the
  next edit is fed to the formatter as it is.
\<close>

theorem pristine_transition:
  assumes "\<not> truthy (defaultCountryCode cfg)" and "isPristine st"
    and "rawText \<noteq> []" and "\<not> startsWith rawText ''+''"
  shows "let p = (if startsWith rawText ''0'' then [] else rawText);
             seeded = snd (input F ''+'' (reset F (asYouType st)));
             st' = state_of (applyEdit F cfg rawText caret st)
         in asYouType st' = snd (input F p seeded) \<and>
            innerText st' = fst (input F p seeded) \<and>
            \<not> isPristine st' \<and>
            (fst (input F p seeded) \<noteq> [] \<longrightarrow>
               applyEdit F cfg rawText caret st = Returned st' \<and>
               inputValue st' = (case getNumberValue F (asYouType st') of None \<Rightarrow> [] | Some v \<Rightarrow> v)) \<and>
            (\<forall>next c. next \<noteq> [] \<longrightarrow>
               asYouType (state_of (applyEdit F cfg next c st')) =
                 snd (input F next (reset F (asYouType st'))))"
proof -
  define st1 where "st1 = st\<lparr>innerText := rawText, selection := Some (EditField, caret),
                              asYouType := reset F (asYouType st)\<rparr>"
  define p where "p = (if startsWith rawText ''0'' then [] else rawText)"
  define sd where "sd = seedInternational F cfg rawText st1"
  define st' where "st' = state_of (applyEdit F cfg rawText caret st)"
  have pr: "isPristine st1" and ay: "asYouType st1 = reset F (asYouType st)"
    using assms(2) by (simp_all add: st1_def)
  have sd1: "fst sd = p"
    and sd2: "asYouType (snd sd) = snd (input F ''+'' (reset F (asYouType st)))"
    and sd3: "\<not> isPristine (snd sd)"
    using seedInternational_seeded [OF assms(1) pr assms(4), of F] by (simp_all add: sd_def p_def ay)
  have st': "st' = state_of (formatInto F (fst sd) (snd sd))"
    using assms(3) by (simp add: st'_def applyEdit_nonempty updateInputField_def Let_def sd_def st1_def)
  have a: "asYouType st' = snd (input F p (snd (input F ''+'' (reset F (asYouType st)))))"
    by (simp add: st' sd1 sd2)
  have b: "innerText st' = fst (input F p (snd (input F ''+'' (reset F (asYouType st)))))"
    by (simp add: st' sd1 sd2)
  have c: "\<not> isPristine st'"
    using sd3 by (simp add: st')
  have d: "applyEdit F cfg rawText caret st = Returned st' \<and>
           inputValue st' = (case getNumberValue F (asYouType st') of None \<Rightarrow> [] | Some v \<Rightarrow> v)"
    if "fst (input F p (snd (input F ''+'' (reset F (asYouType st))))) \<noteq> []"
  proof -
    have ne: "fst (input F (fst sd) (asYouType (snd sd))) \<noteq> []"
      using that by (simp add: sd1 sd2)
    have "applyEdit F cfg rawText caret st = formatInto F (fst sd) (snd sd)"
      using assms(3) by (simp add: applyEdit_nonempty updateInputField_def Let_def sd_def st1_def)
    with formatInto_returned [OF ne] formatInto_value [OF ne] show ?thesis
      by (simp add: st')
  qed
  have e: "asYouType (state_of (applyEdit F cfg next k st')) = snd (input F next (reset F (asYouType st')))"
    if "next \<noteq> []" for "next" k
    using that c by (simp add: applyEdit_nonempty updateInputField_def Let_def seedInternational_unseeded)
  show ?thesis
    unfolding Let_def using a b c d e by (simp add: p_def st'_def)
qed

text \<open>
  The theorem at the raw text \<open>0123456789\<close>: the formatter has seen the plus sign only.
\<close>

theorem pristine_transition_witness:
  "\<not> truthy (defaultCountryCode (sampleConfig None)) \<and> isPristine (sampleField None) \<and>
   ''0123456789'' \<noteq> [] \<and> \<not> startsWith ''0123456789'' ''+'' \<and>
   asYouType (state_of (applyEdit sampleFormatter (sampleConfig None) ''0123456789'' 10 (sampleField None)))
     = (None, ''+'')"
proof -
  have h1: "\<not> truthy (defaultCountryCode (sampleConfig None))" by code_simp
  have h2: "isPristine (sampleField None)" by code_simp
  have h3: "''0123456789'' \<noteq> []" by simp
  have h4: "\<not> startsWith ''0123456789'' ''+''" by code_simp
  have v: "snd (input sampleFormatter (if startsWith ''0123456789'' ''0'' then [] else ''0123456789'')
             (snd (input sampleFormatter ''+'' (reset sampleFormatter (asYouType (sampleField None))))))
           = (None, ''+'')"
    by code_simp
  from pristine_transition [OF h1 h2 h3 h4, of sampleFormatter 10]
  have "asYouType (state_of (applyEdit sampleFormatter (sampleConfig None) ''0123456789'' 10 (sampleField None)))
        = snd (input sampleFormatter (if startsWith ''0123456789'' ''0'' then [] else ''0123456789'')
             (snd (input sampleFormatter ''+'' (reset sampleFormatter (asYouType (sampleField None))))))"
    unfolding Let_def by blast
  with v h1 h2 h3 h4 show ?thesis by (simp only: simp_thms)
qed

text \<open>
  Claim C1 as stated fails at the raw text \<open>0123456789\<close>: its digits after the leading
  0 are not kept, and the display and the host value are not those of
  \<open>+123456789\<close>.
\<close>

theorem pristine_transition_counterexample:
  "innerText (state_of (applyEdit sampleFormatter (sampleConfig None) ''0123456789'' 10 (sampleField None)))
     = ''+'' \<and>
   inputValue (state_of (applyEdit sampleFormatter (sampleConfig None) ''0123456789'' 10 (sampleField None)))
     = [] \<and>
   innerText (state_of (applyEdit sampleFormatter (sampleConfig None) ''+123456789'' 10 (sampleField None)))
     = ''+12 3456789''"
  by code_simp

subsection \<open>The caret\<close>

text \<open>
  Claim C2, as the code has it.  Take an edit that is formatted without the plus sign of
  the pristine transition, and whose formatted text is not empty.  The edit returns, and
  the new caret offset is the old one, first raised by one if it equals the length of the
  raw text, then clamped to the length of the formatted text.  So a caret at the end of
  the raw text is at the end of the formatted text when formatting has added at most one
  character, and a caret elsewhere keeps its offset, clamped.
\<close>

theorem caret_after_edit:
  assumes "rawText \<noteq> []"
    and "truthy (defaultCountryCode cfg) \<or> \<not> isPristine st \<or> startsWith rawText ''+''"
    and "fst (input F rawText (reset F (asYouType st))) \<noteq> []"
  shows "let st' = state_of (applyEdit F cfg rawText caret st);
             new = fst (input F rawText (reset F (asYouType st)))
         in applyEdit F cfg rawText caret st = Returned st' \<and>
            innerText st' = new \<and>
            selection st' =
              Some (EditField, min (if caret = length rawText then caret + 1 else caret) (length new)) \<and>
            (caret = length rawText \<and> length new \<le> length rawText + 1 \<longrightarrow>
               selection st' = Some (EditField, length new)) \<and>
            (caret \<noteq> length rawText \<longrightarrow>
               selection st' = Some (EditField, min caret (length new)))"
proof -
  define st1 where "st1 = st\<lparr>innerText := rawText, selection := Some (EditField, caret),
                              asYouType := reset F (asYouType st)\<rparr>"
  define sd where "sd = seedInternational F cfg rawText st1"
  define new where "new = fst (input F rawText (reset F (asYouType st)))"
  have kept: "truthy (defaultCountryCode cfg) \<or> \<not> isPristine st1 \<or> startsWith rawText ''+''"
    using assms(2) by (simp add: st1_def)
  have sd1: "fst sd = rawText" and sd2: "asYouType (snd sd) = reset F (asYouType st)"
    and sd3: "caretPosition (snd sd) = (if caret = length rawText then caret + 1 else caret)"
    using seedInternational_kept [OF kept, of F] by (simp_all add: sd_def st1_def caretPosition_edit)
  have run: "applyEdit F cfg rawText caret st = formatInto F (fst sd) (snd sd)"
    using assms(1) by (simp add: applyEdit_nonempty updateInputField_def Let_def sd_def st1_def)
  have ne: "fst (input F (fst sd) (asYouType (snd sd))) \<noteq> []"
    using assms(3) by (simp add: sd1 sd2)
  have ret: "applyEdit F cfg rawText caret st = Returned (state_of (applyEdit F cfg rawText caret st))"
    using formatInto_returned [OF ne] by (simp add: run)
  have disp: "innerText (state_of (applyEdit F cfg rawText caret st)) = new"
    by (simp add: run sd1 sd2 new_def)
  have sel: "selection (state_of (applyEdit F cfg rawText caret st)) =
      Some (EditField, min (if caret = length rawText then caret + 1 else caret) (length new))"
    using formatInto_selection [OF ne] by (simp add: run sd1 sd2 sd3 new_def)
  show ?thesis
    unfolding Let_def new_def [symmetric] using ret disp sel by auto
qed

text \<open>
  The theorem at the raw text \<open>+417\<close> with the caret at its end: formatting inserts
  one space, and the caret is at the end of the formatted text.
\<close>

theorem caret_after_edit_witness:
  "''+417'' \<noteq> [] \<and> startsWith ''+417'' ''+'' \<and>
   innerText (state_of (applyEdit sampleFormatter (sampleConfig None) ''+417'' 4 (sampleField None)))
     = ''+41 7'' \<and>
   selection (state_of (applyEdit sampleFormatter (sampleConfig None) ''+417'' 4 (sampleField None)))
     = Some (EditField, 5)"
proof -
  have h1: "''+417'' \<noteq> []" by simp
  have h2: "startsWith ''+417'' ''+''" by code_simp
  have h3: "fst (input sampleFormatter ''+417'' (reset sampleFormatter (asYouType (sampleField None)))) \<noteq> []"
    by code_simp
  have v: "fst (input sampleFormatter ''+417'' (reset sampleFormatter (asYouType (sampleField None))))
           = ''+41 7''"
    by code_simp
  from caret_after_edit [of "''+417''" "sampleConfig None" "sampleField None" sampleFormatter 4] h1 h2 h3
  have "innerText (state_of (applyEdit sampleFormatter (sampleConfig None) ''+417'' 4 (sampleField None)))
          = fst (input sampleFormatter ''+417'' (reset sampleFormatter (asYouType (sampleField None)))) \<and>
        selection (state_of (applyEdit sampleFormatter (sampleConfig None) ''+417'' 4 (sampleField None)))
          = Some (EditField, min (if (4::nat) = length ''+417'' then 4 + 1 else 4)
              (length (fst (input sampleFormatter ''+417'' (reset sampleFormatter (asYouType (sampleField None)))))))"
    unfolding Let_def by blast
  then show ?thesis using h1 h2 by (simp add: v)
qed

text \<open>
  Claim C2 as stated fails where formatting adds two characters: with the caret at the
  end of the raw text \<open>213\<close>, offset 3, the formatted text has length 5 and the caret
  is at offset 4, before the closing parenthesis.
\<close>

theorem caret_after_edit_counterexample:
  "innerText (state_of (applyEdit sampleFormatter (sampleConfig (Some ''CH'')) ''213'' 3
      (sampleField (Some ''CH'')))) = ''(213)'' \<and>
   selection (state_of (applyEdit sampleFormatter (sampleConfig (Some ''CH'')) ''213'' 3
      (sampleField (Some ''CH'')))) = Some (EditField, 4)"
  by code_simp

subsection \<open>The empty edit\<close>

text \<open>
  Claim C3, as the code has it.  An edit whose raw text is empty returns with the
  pristine flag set and the display empty.  It does not run the formatter: the host value,
  the state of the formatter, the flag in the opener and the events dispatched on the host
  input are what they were.
\<close>

theorem empty_edit:
  "applyEdit F cfg [] caret st = Returned (state_of (applyEdit F cfg [] caret st)) \<and>
   isPristine (state_of (applyEdit F cfg [] caret st)) \<and>
   innerText (state_of (applyEdit F cfg [] caret st)) = [] \<and>
   inputValue (state_of (applyEdit F cfg [] caret st)) = inputValue st \<and>
   asYouType (state_of (applyEdit F cfg [] caret st)) = asYouType st \<and>
   openerFlag (state_of (applyEdit F cfg [] caret st)) = openerFlag st \<and>
   dispatched (state_of (applyEdit F cfg [] caret st)) = dispatched st"
  by (simp add: applyEdit_def handleInput_def)

text \<open>
  Claim C3 as stated fails after a complete number has been typed: clearing the display
  leaves the number in the host input, and the formatter still reports its country.
\<close>

theorem empty_edit_counterexample:
  "inputValue (run sampleFormatter (sampleConfig None) [Edit ''+41791234567'' 12, Edit [] 0]
      (sampleField None)) = ''+41791234567'' \<and>
   getCountry sampleFormatter
     (asYouType (run sampleFormatter (sampleConfig None) [Edit ''+41791234567'' 12, Edit [] 0]
        (sampleField None))) = Some ''CH''"
  by code_simp

subsection \<open>Validity\<close>

text \<open>
  Claim C4.  \<open>checkValidity\<close> yields true exactly when the formatter reports the number
  valid and, if only mobile numbers are accepted, its type is \<^verbatim>\<open>MOBILE\<close>.  When it
  yields false, the message of the host input is the mobile one for a valid number and
  the general one otherwise.  The function is total: it has no path that throws.
\<close>

theorem checkValidity_iff:
  "(fst (checkValidity F cfg st) \<longleftrightarrow>
      isValid F (asYouType st) \<and>
      (mobileOnly cfg \<longrightarrow>
         (case getNumber F (asYouType st) of None \<Rightarrow> None | Some n \<Rightarrow> getType n) = Some ''MOBILE'')) \<and>
   (\<not> fst (checkValidity F cfg st) \<longrightarrow>
      customValidity (snd (checkValidity F cfg st)) =
        (if isValid F (asYouType st) then ''Invalid mobile number'' else ''Invalid phone number''))"
  by (simp add: checkValidity_def)

text \<open>
  The theorem for a widget that accepts mobile numbers only: a valid fixed-line number
  is refused with the mobile message, a valid mobile number is accepted.
\<close>

theorem checkValidity_iff_witness:
  "\<not> fst (checkValidity sampleFormatter ((sampleConfig None)\<lparr>mobileOnly := True\<rparr>)
      (run sampleFormatter (sampleConfig None) [Edit ''+41441234567'' 12] (sampleField None))) \<and>
   customValidity (snd (checkValidity sampleFormatter ((sampleConfig None)\<lparr>mobileOnly := True\<rparr>)
      (run sampleFormatter (sampleConfig None) [Edit ''+41441234567'' 12] (sampleField None))))
     = ''Invalid mobile number'' \<and>
   fst (checkValidity sampleFormatter ((sampleConfig None)\<lparr>mobileOnly := True\<rparr>)
      (run sampleFormatter (sampleConfig None) [Edit ''+41791234567'' 12] (sampleField None)))"
proof -
  let ?cfg = "(sampleConfig None)\<lparr>mobileOnly := True\<rparr>"
  let ?fixed = "run sampleFormatter (sampleConfig None) [Edit ''+41441234567'' 12] (sampleField None)"
  let ?mobile = "run sampleFormatter (sampleConfig None) [Edit ''+41791234567'' 12] (sampleField None)"
  have m: "mobileOnly ?cfg" by simp
  have a: "isValid sampleFormatter (asYouType ?fixed)" by code_simp
  have b: "(case getNumber sampleFormatter (asYouType ?fixed) of None \<Rightarrow> None | Some n \<Rightarrow> getType n)
           \<noteq> Some ''MOBILE''" by code_simp
  have c: "isValid sampleFormatter (asYouType ?mobile)" by code_simp
  have d: "(case getNumber sampleFormatter (asYouType ?mobile) of None \<Rightarrow> None | Some n \<Rightarrow> getType n)
           = Some ''MOBILE''" by code_simp
  from checkValidity_iff [of sampleFormatter ?cfg ?fixed] m a b
  have 1: "\<not> fst (checkValidity sampleFormatter ?cfg ?fixed) \<and>
           customValidity (snd (checkValidity sampleFormatter ?cfg ?fixed)) = ''Invalid mobile number''"
    by (simp del: fst_conv snd_conv)
  from checkValidity_iff [of sampleFormatter ?cfg ?mobile] m c d
  have 2: "fst (checkValidity sampleFormatter ?cfg ?mobile)"
    by (simp del: fst_conv snd_conv)
  from 1 2 show ?thesis by blast
qed

subsection \<open>The highlight of the picker\<close>

lemma filter_eq_upt: "i < n \<Longrightarrow> filter (\<lambda>j. j = i) [0..<n] = [i]"
  by (induction n) (auto simp add: less_Suc_eq)

lemma selectedRow_singleton:
  "i < length (codeCountryMap cfg) \<Longrightarrow> selected st = {i} \<Longrightarrow> selectedRow cfg st = Some i"
  by (simp add: selectedRow_def filter_eq_upt)

lemma selectedRow_less:
  assumes "selectedRow cfg st = Some i"
  shows "i < length (codeCountryMap cfg)"
proof -
  from assms obtain rest where
    "filter (\<lambda>j. j \<in> selected st) [0..<length (codeCountryMap cfg)] = i # rest"
    by (auto simp add: selectedRow_def split: list.splits)
  then have "i \<in> set (filter (\<lambda>j. j \<in> selected st) [0..<length (codeCountryMap cfg)])"
    by simp
  then show ?thesis by simp
qed

lemma selectedRow_selectElement:
  "j < length (codeCountryMap cfg) \<Longrightarrow> selectedRow cfg (selectElement j st) = Some j"
  by (simp add: selectedRow_singleton)

lemma arrowDown_selected:
  assumes "isOpen st" and "selectedRow cfg st = Some i"
  shows "handleKeypress F cfg ''ArrowDown'' st =
           Returned (selectElement ((i + 1) mod length (codeCountryMap cfg)) st)"
  using assms selectedRow_less [OF assms(2)]
  by (auto simp add: handleKeypress_def Let_def not_less le_Suc_eq mod_Suc)

lemma arrowDown_none:
  assumes "isOpen st" and "selectedRow cfg st = None" and "codeCountryMap cfg \<noteq> []"
  shows "handleKeypress F cfg ''ArrowDown'' st = Returned (selectElement 0 st)"
  using assms by (simp add: handleKeypress_def)

lemma arrowUp_selected:
  assumes "isOpen st" and "selectedRow cfg st = Some i"
  shows "handleKeypress F cfg ''ArrowUp'' st =
           Returned (selectElement ((i + length (codeCountryMap cfg) - 1) mod length (codeCountryMap cfg)) st)"
proof (cases "0 < i")
  case True
  let ?N = "length (codeCountryMap cfg)"
  have lt: "i - 1 < ?N" using selectedRow_less [OF assms(2)] by simp
  have "i + ?N - 1 = (i - 1) + ?N" using True by simp
  then have "(i + ?N - 1) mod ?N = (i - 1) mod ?N" by simp
  with lt have "(i + ?N - 1) mod ?N = i - 1" by simp
  with True assms show ?thesis
    by (simp add: handleKeypress_def)
next
  case False
  with selectedRow_less [OF assms(2)] assms show ?thesis
    by (auto simp add: handleKeypress_def)
qed

lemma arrowUp_none:
  assumes "isOpen st" and "selectedRow cfg st = None" and "codeCountryMap cfg \<noteq> []"
  shows "handleKeypress F cfg ''ArrowUp'' st =
           Returned (selectElement (length (codeCountryMap cfg) - 1) st)"
  using assms by (simp add: handleKeypress_def)

lemma arrows_empty:
  assumes "isOpen st" and "codeCountryMap cfg = []"
  shows "handleKeypress F cfg ''ArrowDown'' st = Returned st"
    and "handleKeypress F cfg ''ArrowUp'' st = Returned st"
  using assms by (simp_all add: handleKeypress_def selectedRow_def)

lemma run_arrowDown:
  assumes "isOpen st" and "selectedRow cfg st = Some i"
  shows "selectedRow cfg (run F cfg (replicate n (Key ''ArrowDown'')) st) =
           Some ((i + n) mod length (codeCountryMap cfg))"
  using assms
proof (induction n arbitrary: st i)
  case 0
  with selectedRow_less [of cfg st i] show ?case by auto
next
  case (Suc n)
  let ?N = "length (codeCountryMap cfg)"
  let ?st = "selectElement ((i + 1) mod ?N) st"
  have pos: "0 < ?N" using selectedRow_less [OF Suc.prems(2)] by auto
  have step: "state_of (handleKeypress F cfg ''ArrowDown'' st) = ?st"
    by (simp add: arrowDown_selected [OF Suc.prems])
  have op: "isOpen ?st" using Suc.prems(1) by simp
  have sel: "selectedRow cfg ?st = Some ((i + 1) mod ?N)"
    using pos by (simp add: selectedRow_selectElement)
  have "selectedRow cfg (run F cfg (replicate n (Key ''ArrowDown'')) ?st) =
          Some (((i + 1) mod ?N + n) mod ?N)"
    by (rule Suc.IH [OF op sel])
  moreover have "((i + 1) mod ?N + n) mod ?N = (i + Suc n) mod ?N"
    by (simp add: mod_add_left_eq)
  ultimately show ?case by (simp add: step)
qed

text \<open>
  Claim C5, as the code has it.  In the open picker, with a highlighted row
  \<^verbatim>\<open>ArrowDown\<close> and \<^verbatim>\<open>ArrowUp\<close> move the highlight to the next and to the
  previous row, around the ends.  With no row highlighted and a catalogue of \<open>N > 0\<close>
  entries, \<^verbatim>\<open>ArrowDown\<close> highlights the first row and \<^verbatim>\<open>ArrowUp\<close> the last;
  \<open>N\<close> times \<^verbatim>\<open>ArrowDown\<close> lead to the last row, and \<open>N + 1\<close> times back to the
  first.  With an empty catalogue both keys leave the state as it is.
\<close>

theorem highlight_wraps:
  assumes "isOpen st"
  shows "(\<forall>i. selectedRow cfg st = Some i \<longrightarrow>
            selectedRow cfg (state_of (handleKeypress F cfg ''ArrowDown'' st)) =
              Some ((i + 1) mod length (codeCountryMap cfg)) \<and>
            selectedRow cfg (state_of (handleKeypress F cfg ''ArrowUp'' st)) =
              Some ((i + length (codeCountryMap cfg) - 1) mod length (codeCountryMap cfg))) \<and>
         (selectedRow cfg st = None \<and> codeCountryMap cfg \<noteq> [] \<longrightarrow>
            selectedRow cfg (state_of (handleKeypress F cfg ''ArrowDown'' st)) = Some 0 \<and>
            selectedRow cfg (state_of (handleKeypress F cfg ''ArrowUp'' st)) =
              Some (length (codeCountryMap cfg) - 1) \<and>
            selectedRow cfg (run F cfg (replicate (length (codeCountryMap cfg)) (Key ''ArrowDown'')) st) =
              Some (length (codeCountryMap cfg) - 1) \<and>
            selectedRow cfg (run F cfg (replicate (length (codeCountryMap cfg) + 1) (Key ''ArrowDown'')) st) =
              Some 0) \<and>
         (codeCountryMap cfg = [] \<longrightarrow>
            handleKeypress F cfg ''ArrowDown'' st = Returned st \<and>
            handleKeypress F cfg ''ArrowUp'' st = Returned st)"
proof -
  let ?N = "length (codeCountryMap cfg)"
  have a: "selectedRow cfg (state_of (handleKeypress F cfg ''ArrowDown'' st)) = Some ((i + 1) mod ?N) \<and>
           selectedRow cfg (state_of (handleKeypress F cfg ''ArrowUp'' st)) = Some ((i + ?N - 1) mod ?N)"
    if "selectedRow cfg st = Some i" for i
  proof -
    have "0 < ?N" using selectedRow_less [OF that] by auto
    then show ?thesis
      by (simp add: arrowDown_selected [OF assms that] arrowUp_selected [OF assms that]
          selectedRow_selectElement)
  qed
  have b: "selectedRow cfg (state_of (handleKeypress F cfg ''ArrowDown'' st)) = Some 0 \<and>
           selectedRow cfg (state_of (handleKeypress F cfg ''ArrowUp'' st)) = Some (?N - 1) \<and>
           selectedRow cfg (run F cfg (replicate ?N (Key ''ArrowDown'')) st) = Some (?N - 1) \<and>
           selectedRow cfg (run F cfg (replicate (?N + 1) (Key ''ArrowDown'')) st) = Some 0"
    if none: "selectedRow cfg st = None" and ne: "codeCountryMap cfg \<noteq> []"
  proof -
    have pos: "0 < ?N" using ne by simp
    let ?st = "selectElement 0 st"
    have first: "state_of (handleKeypress F cfg ''ArrowDown'' st) = ?st"
      by (simp add: arrowDown_none [OF assms none ne])
    have op: "isOpen ?st" using assms by simp
    have sel: "selectedRow cfg ?st = Some 0"
      using pos by (simp add: selectedRow_selectElement)
    have more: "selectedRow cfg (run F cfg (replicate (Suc n) (Key ''ArrowDown'')) st) = Some (n mod ?N)" for n
      using run_arrowDown [OF op sel, of F n] by (simp add: first)
    have e: "Suc (?N - 1) = ?N" using pos by simp
    have m: "(?N - 1) mod ?N = ?N - 1" using pos by simp
    have n1: "selectedRow cfg (run F cfg (replicate ?N (Key ''ArrowDown'')) st) = Some (?N - 1)"
      using more [of "?N - 1"] unfolding e m .
    have n2: "selectedRow cfg (run F cfg (replicate (?N + 1) (Key ''ArrowDown'')) st) = Some 0"
      using more [of ?N] by simp
    show ?thesis
      using pos n1 n2 by (simp add: first sel arrowUp_none [OF assms none ne] selectedRow_selectElement)
  qed
  from a b arrows_empty [OF assms] show ?thesis by blast
qed

text \<open>
  The theorem for the picker just opened over the catalogue of two countries.
\<close>

theorem highlight_wraps_witness:
  "isOpen (run sampleFormatter (sampleConfig None) [Click onOpener] (sampleField None)) \<and>
   selectedRow (sampleConfig None)
     (run sampleFormatter (sampleConfig None) [Click onOpener] (sampleField None)) = None \<and>
   codeCountryMap (sampleConfig None) \<noteq> [] \<and>
   selectedRow (sampleConfig None)
     (run sampleFormatter (sampleConfig None)
        (replicate (length (codeCountryMap (sampleConfig None))) (Key ''ArrowDown''))
        (run sampleFormatter (sampleConfig None) [Click onOpener] (sampleField None)))
     = Some (length (codeCountryMap (sampleConfig None)) - 1) \<and>
   selectedRow (sampleConfig None)
     (run sampleFormatter (sampleConfig None)
        (replicate (length (codeCountryMap (sampleConfig None)) + 1) (Key ''ArrowDown''))
        (run sampleFormatter (sampleConfig None) [Click onOpener] (sampleField None)))
     = Some 0"
proof -
  let ?st = "run sampleFormatter (sampleConfig None) [Click onOpener] (sampleField None)"
  have h1: "isOpen ?st" by code_simp
  have h2: "selectedRow (sampleConfig None) ?st = None" by code_simp
  have h3: "codeCountryMap (sampleConfig None) \<noteq> []" by code_simp
  from highlight_wraps [OF h1, of "sampleConfig None" sampleFormatter] h1 h2 h3
  show ?thesis by blast
qed

text \<open>
  Claim C5 as stated fails for two entries: from no highlight, \<^verbatim>\<open>ArrowDown\<close> twice
  highlights the second row, not the first.
\<close>

theorem highlight_wraps_counterexample:
  "length (codeCountryMap (sampleConfig None)) = 2 \<and>
   selectedRow (sampleConfig None) (run sampleFormatter (sampleConfig None) [Click onOpener] (sampleField None))
     = None \<and>
   selectedRow (sampleConfig None)
     (run sampleFormatter (sampleConfig None) [Click onOpener, Key ''ArrowDown'', Key ''ArrowDown'']
        (sampleField None)) = Some 1"
  by code_simp

subsection \<open>Committing a country\<close>

text \<open>
  Claim C6, as the code has it.  In every state with the picker open, \<^verbatim>\<open>Enter\<close> on
  the highlighted row, and a click on any row with a country and a calling code, whether
  highlighted or not, close the picker and set the display to a plus sign, the calling
  code of that row and the national number of the formatter's current number, or nothing
  for no number.  The deferred callback then puts the caret at the end of that text.
  The formatter is not run on the new text: its state and the host value stay as they
  were.
\<close>

theorem commit_rewrites_display:
  assumes "isOpen st"
  shows "(\<forall>i. selectedRow cfg st = Some i \<longrightarrow>
            (let byKey = state_of (handleKeypress F cfg ''Enter'' st);
                 shown = ''+'' @ rowCallingCode cfg i @
                           (case getNumber F (asYouType st) of None \<Rightarrow> [] | Some n \<Rightarrow> nationalNumber n)
             in handleKeypress F cfg ''Enter'' st = Returned byKey \<and>
                \<not> isOpen byKey \<and> innerText byKey = shown \<and>
                innerText (runTimers byKey) = shown \<and>
                selection (runTimers byKey) = Some (EditField, length shown) \<and>
                asYouType byKey = asYouType st \<and> inputValue byKey = inputValue st)) \<and>
         (\<forall>j. rowCountry cfg j \<noteq> [] \<and> rowCallingCode cfg j \<noteq> [] \<longrightarrow>
            (let byClick = handleClick F cfg (onRow cfg j) st;
                 shown = ''+'' @ rowCallingCode cfg j @
                           (case getNumber F (asYouType st) of None \<Rightarrow> [] | Some n \<Rightarrow> nationalNumber n)
             in \<not> isOpen byClick \<and> innerText byClick = shown \<and>
                innerText (runTimers byClick) = shown \<and>
                selection (runTimers byClick) = Some (EditField, length shown) \<and>
                asYouType byClick = asYouType st \<and> inputValue byClick = inputValue st))"
proof -
  have byKey: "let byKey = state_of (handleKeypress F cfg ''Enter'' st);
                 shown = ''+'' @ rowCallingCode cfg i @
                           (case getNumber F (asYouType st) of None \<Rightarrow> [] | Some n \<Rightarrow> nationalNumber n)
             in handleKeypress F cfg ''Enter'' st = Returned byKey \<and>
                \<not> isOpen byKey \<and> innerText byKey = shown \<and>
                innerText (runTimers byKey) = shown \<and>
                selection (runTimers byKey) = Some (EditField, length shown) \<and>
                asYouType byKey = asYouType st \<and> inputValue byKey = inputValue st"
    if sel: "selectedRow cfg st = Some i" for i
  proof -
    let ?byKey = "setInternationalCode F (rowCountry cfg i) (rowCallingCode cfg i)
                    (closeInternationalSelector st)"
    have k: "handleKeypress F cfg ''Enter'' st = Returned ?byKey"
      by (rule handleKeypress_Enter [OF assms sel])
    have tk: "timers ?byKey = timers st @ [CaretToEnd]" by simp
    show ?thesis
      unfolding Let_def k state_of.simps
      using runTimers_caret [OF tk] by simp
  qed
  have byClick: "let byClick = handleClick F cfg (onRow cfg j) st;
                 shown = ''+'' @ rowCallingCode cfg j @
                           (case getNumber F (asYouType st) of None \<Rightarrow> [] | Some n \<Rightarrow> nationalNumber n)
             in \<not> isOpen byClick \<and> innerText byClick = shown \<and>
                innerText (runTimers byClick) = shown \<and>
                selection (runTimers byClick) = Some (EditField, length shown) \<and>
                asYouType byClick = asYouType st \<and> inputValue byClick = inputValue st"
    if c: "rowCountry cfg j \<noteq> []" and l: "rowCallingCode cfg j \<noteq> []" for j
  proof -
    let ?byClick = "closeInternationalSelector
                      (setInternationalCode F (rowCountry cfg j) (rowCallingCode cfg j) st)"
    have k: "handleClick F cfg (onRow cfg j) st = ?byClick"
      by (rule handleClick_onRow [OF c l])
    have tc: "timers ?byClick = timers st @ [CaretToEnd]" by simp
    show ?thesis
      unfolding Let_def k
      using runTimers_caret [OF tc] by simp
  qed
  from byKey byClick show ?thesis by blast
qed

text \<open>
  The theorem for a Swiss number, with the picker opened on the Swiss row: a click on
  the German row, which is not highlighted, shows the German calling code.
\<close>

theorem commit_rewrites_display_witness:
  "isOpen (run sampleFormatter (sampleConfig None) [Edit ''+41791234567'' 12, Click onOpener]
      (sampleField None)) \<and>
   selectedRow (sampleConfig None)
     (run sampleFormatter (sampleConfig None) [Edit ''+41791234567'' 12, Click onOpener]
        (sampleField None)) = Some 1 \<and>
   rowCountry (sampleConfig None) 0 \<noteq> [] \<and> rowCallingCode (sampleConfig None) 0 \<noteq> [] \<and>
   innerText (state_of (handleKeypress sampleFormatter (sampleConfig None) ''Enter''
     (run sampleFormatter (sampleConfig None) [Edit ''+41791234567'' 12, Click onOpener]
        (sampleField None)))) = ''+41791234567'' \<and>
   innerText (handleClick sampleFormatter (sampleConfig None) (onRow (sampleConfig None) 0)
     (run sampleFormatter (sampleConfig None) [Edit ''+41791234567'' 12, Click onOpener]
        (sampleField None))) = ''+49791234567''"
proof -
  let ?st = "run sampleFormatter (sampleConfig None) [Edit ''+41791234567'' 12, Click onOpener]
      (sampleField None)"
  have h1: "isOpen ?st" by code_simp
  have h2: "selectedRow (sampleConfig None) ?st = Some 1" by code_simp
  have h3: "rowCountry (sampleConfig None) 0 \<noteq> []" by code_simp
  have h4: "rowCallingCode (sampleConfig None) 0 \<noteq> []" by code_simp
  have v1: "''+'' @ rowCallingCode (sampleConfig None) 1 @
             (case getNumber sampleFormatter (asYouType ?st) of None \<Rightarrow> [] | Some n \<Rightarrow> nationalNumber n)
           = ''+41791234567''"
    by code_simp
  have v0: "''+'' @ rowCallingCode (sampleConfig None) 0 @
             (case getNumber sampleFormatter (asYouType ?st) of None \<Rightarrow> [] | Some n \<Rightarrow> nationalNumber n)
           = ''+49791234567''"
    by code_simp
  note t = commit_rewrites_display [OF h1, of "sampleConfig None" sampleFormatter]
  from t h2
  have a: "innerText (state_of (handleKeypress sampleFormatter (sampleConfig None) ''Enter'' ?st)) =
          ''+'' @ rowCallingCode (sampleConfig None) 1 @
             (case getNumber sampleFormatter (asYouType ?st) of None \<Rightarrow> [] | Some n \<Rightarrow> nationalNumber n)"
    unfolding Let_def by blast
  from t h3 h4
  have b: "innerText (handleClick sampleFormatter (sampleConfig None) (onRow (sampleConfig None) 0) ?st) =
          ''+'' @ rowCallingCode (sampleConfig None) 0 @
             (case getNumber sampleFormatter (asYouType ?st) of None \<Rightarrow> [] | Some n \<Rightarrow> nationalNumber n)"
    unfolding Let_def by blast
  from a b v0 v1 h1 h2 h3 h4 show ?thesis by (simp only: simp_thms)
qed

text \<open>
  Claim C6 as stated fails when Germany is chosen for a Swiss number: the display shows
  the German number, unformatted, while the formatter and the host input still hold the
  Swiss one.  An edit with the same text gives the formatted display and the German
  number in the host input.
\<close>

theorem commit_rewrites_display_counterexample:
  "innerText (run sampleFormatter (sampleConfig None)
      [Edit ''+41791234567'' 12, Click onOpener, Click (onRow (sampleConfig None) 0), Turn]
      (sampleField None)) = ''+49791234567'' \<and>
   inputValue (run sampleFormatter (sampleConfig None)
      [Edit ''+41791234567'' 12, Click onOpener, Click (onRow (sampleConfig None) 0), Turn]
      (sampleField None)) = ''+41791234567'' \<and>
   asYouType (run sampleFormatter (sampleConfig None)
      [Edit ''+41791234567'' 12, Click onOpener, Click (onRow (sampleConfig None) 0), Turn]
      (sampleField None)) = (None, ''+41791234567'') \<and>
   innerText (run sampleFormatter (sampleConfig None)
      [Edit ''+41791234567'' 12, Click onOpener, Click outside, Edit ''+49791234567'' 12]
      (sampleField None)) = ''+49 791234567'' \<and>
   inputValue (run sampleFormatter (sampleConfig None)
      [Edit ''+41791234567'' 12, Click onOpener, Click outside, Edit ''+49791234567'' 12]
      (sampleField None)) = ''+49791234567''"
  by code_simp

subsection \<open>The subscription of the open picker\<close>

text \<open>
  Claim C7, as the code has it.  Opening the picker keeps the cleanup function of the
  subscription just acquired.  From an open picker that keeps the cleanup of subscription
  \<open>k\<close>, every handler that closes the picker calls that cleanup once: \<^verbatim>\<open>Escape\<close>,
  a digit or plus key, \<^verbatim>\<open>Enter\<close> on a highlighted row, and a click whose path does not
  meet the opener, be it on a row or outside.
\<close>

theorem cleanup_on_close:
  assumes "isOpen st" and "cleanup st = Some k"
  shows "cleanup (openInternationalSelector F cfg st0) = Some (acquired st0) \<and>
         isOpen (openInternationalSelector F cfg st0) \<and>
         \<not> isOpen (state_of (handleKeypress F cfg ''Escape'' st)) \<and>
         released (state_of (handleKeypress F cfg ''Escape'' st)) = released st @ [k] \<and>
         (\<forall>key \<in> set (map (\<lambda>c. [c]) ''+0123456789'').
            \<not> isOpen (state_of (handleKeypress F cfg key st)) \<and>
            released (state_of (handleKeypress F cfg key st)) = released st @ [k]) \<and>
         (selectedRow cfg st \<noteq> None \<longrightarrow>
            \<not> isOpen (state_of (handleKeypress F cfg ''Enter'' st)) \<and>
            released (state_of (handleKeypress F cfg ''Enter'' st)) = released st @ [k]) \<and>
         (\<forall>path. InternationalOpener \<notin> ident ` set path \<longrightarrow>
            \<not> isOpen (handleClick F cfg path st) \<and>
            released (handleClick F cfg path st) = released st @ [k])"
proof -
  have esc: "\<not> isOpen (state_of (handleKeypress F cfg ''Escape'' st)) \<and>
             released (state_of (handleKeypress F cfg ''Escape'' st)) = released st @ [k]"
    using assms by (simp add: handleKeypress_Escape closeInternationalSelector_released)
  have dig: "\<not> isOpen (state_of (handleKeypress F cfg key st)) \<and>
             released (state_of (handleKeypress F cfg key st)) = released st @ [k]"
    if "key \<in> set (map (\<lambda>c. [c]) ''+0123456789'')" for key
  proof -
    have "handleKeypress F cfg key st =
            updateInputField F cfg key (focusEditField (closeInternationalSelector st))"
      using assms(1) that digit_key_not_named [OF that]
      by (simp add: handleKeypress_def del: set_map list.set_map)
    then show ?thesis
      using assms(2) by (simp add: closeInternationalSelector_released)
  qed
  have ent: "\<not> isOpen (state_of (handleKeypress F cfg ''Enter'' st)) \<and>
             released (state_of (handleKeypress F cfg ''Enter'' st)) = released st @ [k]"
    if "selectedRow cfg st \<noteq> None"
  proof -
    from that obtain i where "selectedRow cfg st = Some i" by auto
    from handleKeypress_Enter [OF assms(1) this] assms(2) show ?thesis
      by (simp add: closeInternationalSelector_released)
  qed
  have clk: "\<not> isOpen (handleClick F cfg path st) \<and>
             released (handleClick F cfg path st) = released st @ [k]"
    if "InternationalOpener \<notin> ident ` set path" for path
    unfolding handleClick_def by (rule clickLoop_closes [OF that assms(2)])
  from esc dig ent clk show ?thesis by simp
qed

text \<open>
  The theorem for the picker just opened: \<^verbatim>\<open>Escape\<close> releases subscription 0.
\<close>

theorem cleanup_on_close_witness:
  "isOpen (run sampleFormatter (sampleConfig None) [Click onOpener] (sampleField None)) \<and>
   cleanup (run sampleFormatter (sampleConfig None) [Click onOpener] (sampleField None)) = Some 0 \<and>
   released (run sampleFormatter (sampleConfig None) [Click onOpener] (sampleField None)) = [] \<and>
   released (state_of (handleKeypress sampleFormatter (sampleConfig None) ''Escape''
     (run sampleFormatter (sampleConfig None) [Click onOpener] (sampleField None)))) = [0]"
proof -
  let ?st = "run sampleFormatter (sampleConfig None) [Click onOpener] (sampleField None)"
  have h1: "isOpen ?st" by code_simp
  have h2: "cleanup ?st = Some 0" by code_simp
  have r: "released ?st = []" by code_simp
  from cleanup_on_close [OF h1 h2, of sampleFormatter "sampleConfig None"]
  have "released (state_of (handleKeypress sampleFormatter (sampleConfig None) ''Escape'' ?st)) =
          released ?st @ [0]"
    by blast
  with r h1 h2 show ?thesis by simp
qed

text \<open>
  Claim C7 as stated fails: the cleanup function stays in its field after the picker is
  closed, and the next click outside calls it again.  One subscription was acquired, and
  it is released twice.
\<close>

theorem cleanup_on_close_counterexample:
  "acquired (run sampleFormatter (sampleConfig None) [Click onOpener, Key ''Escape'', Click outside]
      (sampleField None)) = 1 \<and>
   released (run sampleFormatter (sampleConfig None) [Click onOpener, Key ''Escape'', Click outside]
      (sampleField None)) = [0, 0]"
  by code_simp

text \<open>
  A click on the opener of a picker that is open acquires a second subscription.  The
  cleanup of the first is overwritten, and closing the picker releases the second only.
\<close>

lemma reopening_keeps_first_subscription:
  "acquired (run sampleFormatter (sampleConfig None) [Click onOpener, Click onOpener, Key ''Escape'']
      (sampleField None)) = 2 \<and>
   released (run sampleFormatter (sampleConfig None) [Click onOpener, Click onOpener, Key ''Escape'']
      (sampleField None)) = [1]"
  by code_simp

subsection \<open>A digit typed in the open picker\<close>

text \<open>
  Claim C8.  In the open picker each of the keys \<open>+\<close> and \<open>0\<close> to \<open>9\<close> closes the
  picker, without a call of \<^verbatim>\<open>setInternationalCode\<close>, and hands the one typed character
  to \<^verbatim>\<open>updateInputField\<close>: the formatter is reset and fed that character, after the
  plus sign of the pristine transition where that applies.
\<close>

theorem digit_closes_and_forwards:
  assumes "isOpen st" and "key \<in> set (map (\<lambda>c. [c]) ''+0123456789'')"
  shows "handleKeypress F cfg key st =
           updateInputField F cfg key (focusEditField (closeInternationalSelector st)) \<and>
         \<not> isOpen (state_of (handleKeypress F cfg key st)) \<and>
         asYouType (state_of (handleKeypress F cfg key st)) =
           (if \<not> truthy (defaultCountryCode cfg) \<and> isPristine st \<and> \<not> startsWith key ''+''
            then snd (input F (if startsWith key ''0'' then [] else key)
                        (snd (input F ''+'' (reset F (asYouType st)))))
            else snd (input F key (reset F (asYouType st))))"
proof -
  have eq: "handleKeypress F cfg key st =
              updateInputField F cfg key (focusEditField (closeInternationalSelector st))"
    using assms(1) assms(2) digit_key_not_named [OF assms(2)]
    by (simp add: handleKeypress_def del: set_map list.set_map)
  show ?thesis
    by (simp add: eq updateInputField_asYouType)
qed

text \<open>
  The theorem for the key \<open>5\<close>, typed in the picker opened over a complete number.
\<close>

theorem digit_closes_and_forwards_witness:
  "isOpen (run sampleFormatter (sampleConfig None) [Edit ''+41791234567'' 12, Click onOpener]
      (sampleField None)) \<and>
   ''5'' \<in> set (map (\<lambda>c. [c]) ''+0123456789'') \<and>
   \<not> isOpen (state_of (handleKeypress sampleFormatter (sampleConfig None) ''5''
      (run sampleFormatter (sampleConfig None) [Edit ''+41791234567'' 12, Click onOpener]
         (sampleField None))))"
proof -
  let ?st = "run sampleFormatter (sampleConfig None) [Edit ''+41791234567'' 12, Click onOpener]
      (sampleField None)"
  have h1: "isOpen ?st" by code_simp
  have h2: "''5'' \<in> set (map (\<lambda>c. [c]) ''+0123456789'')" by simp
  from digit_closes_and_forwards [OF h1 h2, of sampleFormatter "sampleConfig None"] h1 h2
  show ?thesis by blast
qed

subsection \<open>The pristine flag after the picker\<close>




subsection \<open>The initial value\<close>





end
